theory Spec2Isabelle
  imports Complex_Main "HOL-Library.Multiset" "HOL-Library.Product_Lexorder"
begin

section \<open>Panel detection (panel_detector.py, \<open>detect_panels\<close>)\<close>

text \<open>
  The detector reads a page, thresholds it and asks OpenCV for the outer contours. The
  OpenCV calls are library code; a contour enters the model with the two measurements
  the function takes of it: \<open>cv2.contourArea\<close> (a float) and \<open>cv2.boundingRect\<close>
  (four ints \<open>x, y, w, h\<close>). The page is a matrix of pixels, a list of rows. A page
  that cannot be read makes OpenCV raise before the loop starts; the model begins where
  the page and its contours are known.
\<close>

record contour =
  contourArea :: real
  boundingRect :: "int \<times> int \<times> int \<times> int"

record 'px Panel =
  panel_x :: int
  panel_y :: int
  panel_width :: int
  panel_height :: int
  panel_image :: "'px list list"

text \<open>
  Python and numpy slicing \<open>xs[a:b]\<close>: a negative bound counts from the end, and both
  bounds are clipped to the length.
\<close>

definition slice_bound :: "nat \<Rightarrow> int \<Rightarrow> nat" where
  "slice_bound n i = (if i < 0 then nat (max 0 (int n + i)) else min (nat i) n)"

definition py_slice :: "'a list \<Rightarrow> int \<Rightarrow> int \<Rightarrow> 'a list" where
  "py_slice xs a b = take (slice_bound (length xs) b - slice_bound (length xs) a)
                          (drop (slice_bound (length xs) a) xs)"

text \<open>\<open>img[y:y+h, x:x+w]\<close>\<close>

definition crop_image :: "'px list list \<Rightarrow> int \<Rightarrow> int \<Rightarrow> int \<Rightarrow> int \<Rightarrow> 'px list list" where
  "crop_image img x y w h = map (\<lambda>row. py_slice row x (x + w)) (py_slice img y (y + h))"

text \<open>
  The loop over the contours: a contour whose area is below \<open>min_area\<close> is skipped
  (\<open>continue\<close>), every other one appends one panel.
\<close>

fun collect_panels :: "'px list list \<Rightarrow> int \<Rightarrow> contour list \<Rightarrow> 'px Panel list" where
  "collect_panels img min_area [] = []"
| "collect_panels img min_area (c # cs) =
     (if contourArea c < of_int min_area then collect_panels img min_area cs
      else (case boundingRect c of (x, y, w, h) \<Rightarrow>
              \<lparr>panel_x = x, panel_y = y, panel_width = w, panel_height = h,
               panel_image = crop_image img x y w h\<rparr>)
           # collect_panels img min_area cs)"

text \<open>The sort key \<open>lambda p: (p.y // 100, -p.x)\<close>; tuples compare lexicographically.\<close>

definition sort_key_panel :: "'px Panel \<Rightarrow> int \<times> int" where
  "sort_key_panel p = (panel_y p div 100, - panel_x p)"

text \<open>
  \<open>panels.sort(key=...)\<close> is Python's stable sort; \<open>sort_key\<close> is the stable
  insertion sort of the list library. The result of the sort is what is returned.
\<close>

definition detect_panels :: "'px list list \<Rightarrow> contour list \<Rightarrow> int \<Rightarrow> 'px Panel list" where
  "detect_panels img contours min_area =
     sort_key sort_key_panel (collect_panels img min_area contours)"

text \<open>The band of a panel: its y-coordinate integer-divided by the band height 100.\<close>

definition band :: "'px Panel \<Rightarrow> int" where
  "band p = panel_y p div 100"

text \<open>A box lies fully inside another one.\<close>

definition box_of :: "'px Panel \<Rightarrow> int \<times> int \<times> int \<times> int" where
  "box_of p = (panel_x p, panel_y p, panel_width p, panel_height p)"

definition contained_in :: "int \<times> int \<times> int \<times> int \<Rightarrow> int \<times> int \<times> int \<times> int \<Rightarrow> bool" where
  "contained_in a b =
     (case a of (ax, ay, aw, ah) \<Rightarrow> case b of (bx, by, bw, bh) \<Rightarrow>
        bx \<le> ax \<and> by \<le> ay \<and> ax + aw \<le> bx + bw \<and> ay + ah \<le> by + bh)"

section \<open>Narration script (tts_generator.py, \<open>MangaNarrator.create_recap_script\<close>)\<close>

text \<open>
  A panel is a dict with the optional keys \<open>'text'\<close> and \<open>'description'\<close>;
  \<open>panel.get(k, '')\<close> reads a key with the empty string as default. A Python string is
  true exactly when it is not empty.
\<close>

type_synonym panel_data = "string \<rightharpoonup> string"

definition dict_get :: "('k \<rightharpoonup> 'v) \<Rightarrow> 'k \<Rightarrow> 'v \<Rightarrow> 'v" where
  "dict_get d k dflt = (case d k of None \<Rightarrow> dflt | Some v \<Rightarrow> v)"

text \<open>The loop that fills \<open>script_parts\<close>: the units of the script, in panel order.\<close>

fun script_parts :: "panel_data list \<Rightarrow> string list" where
  "script_parts [] = []"
| "script_parts (panel # rest) =
     (let text = dict_get panel ''text'' '''';
          desc = dict_get panel ''description'' ''''
      in if text \<noteq> '''' then text # script_parts rest
         else if desc \<noteq> '''' then (''[Scene: '' @ desc @ '']'') # script_parts rest
         else script_parts rest)"

text \<open>\<open>sep.join(parts)\<close>\<close>

fun str_join :: "string \<Rightarrow> string list \<Rightarrow> string" where
  "str_join sep [] = ''''"
| "str_join sep [p] = p"
| "str_join sep (p # q # ps) = p @ sep @ str_join sep (q # ps)"

definition create_recap_script :: "panel_data list \<Rightarrow> string" where
  "create_recap_script panels_data = str_join '' ... '' (script_parts panels_data)"

section \<open>Ken Burns clips (video_generator.py, \<open>MangaVideoGenerator\<close>)\<close>

text \<open>
  Times, durations and zoom factors are Python floats, modelled as exact reals.
  \<open>int(r)\<close> truncates towards zero; \<open>a // b\<close> on ints is \<open>div\<close>.

  The reals are an idealisation. Where a double quotient or product falls just below an
  integer, \<open>int\<close> gives one less in the code than in the model: at \<open>t = 2.0\<close> of
  the default 5 second clip the code has \<open>1080 / 1.08 = 999.9999999999999\<close> and a
  window 999 high where the model has 1000, and \<open>int(720 * 1.15)\<close> is 827 in the code
  and 828 in the model. The closed evaluations of this theory are at \<open>t = 0\<close> and at
  \<open>t = duration\<close> with the 1920 x 1080 resolution and the default zoom, where the
  doubles are exact or round to the same integers (\<open>int(1080 * 1.2) = 1296\<close>,
  \<open>int(1080 / 1.2) = 900\<close>, \<open>int(1920 / 1.2) = 1600\<close>); the general lemmas speak of
  the exact arithmetic.
\<close>

definition py_int :: "real \<Rightarrow> int" where
  "py_int r = (if 0 \<le> r then \<lfloor>r\<rfloor> else \<lceil>r\<rceil>)"

datatype error = KeyError | IOError | ZeroDivisionError

text \<open>The generator object: \<open>resolution\<close> is \<open>(width, height)\<close>.\<close>

record MangaVideoGenerator =
  resolution :: "int \<times> int"
  fps :: int

text \<open>
  Pixel data and its resampling belong to the libraries. An image enters the model with
  its shape \<open>(h, w)\<close>, as \<open>frame.shape[:2]\<close> gives it, and the files that can be
  loaded are a map from paths to shapes. A frame produced by the effect is the window
  \<open>frame[y_offset:y_offset+crop_h, x_offset:x_offset+crop_w]\<close> of the clip's picture
  together with the size it is resampled to.
\<close>

type_synonym shape = "int \<times> int"

record frame =
  win_x :: int
  win_y :: int
  win_w :: int
  win_h :: int
  out_size :: "int \<times> int"

text \<open>
  \<open>clip.resize(height=H)\<close> of moviepy keeps the aspect ratio: the new size is
  \<open>[w * H / h, H]\<close> and the resizer truncates both to ints.
\<close>

definition resize_height :: "shape \<Rightarrow> int \<Rightarrow> shape" where
  "resize_height s H = (case s of (h, w) \<Rightarrow> (H, py_int (of_int w * of_int H / of_int h)))"

text \<open>
  The closure \<open>zoom_and_pan\<close>. It reads \<open>self.resolution\<close> and the parameters of
  \<open>create_ken_burns_clip\<close>; \<open>shp\<close> is the shape of \<open>get_frame(t)\<close>, the resized
  picture. It writes nothing. A division by zero raises.
\<close>

definition zoom_and_pan ::
  "MangaVideoGenerator \<Rightarrow> real \<Rightarrow> real \<Rightarrow> real \<Rightarrow> string \<Rightarrow> shape \<Rightarrow> real \<Rightarrow> error + frame" where
  "zoom_and_pan self duration zoom_start zoom_end pan_direction shp t =
     (if duration = 0 then Inl ZeroDivisionError
      else
        let progress = t / duration;
            current_zoom = zoom_start + (zoom_end - zoom_start) * progress;
            h = fst shp;
            w = snd shp
        in if current_zoom = 0 then Inl ZeroDivisionError
           else
             let crop_h = py_int (of_int (snd (resolution self)) / current_zoom);
                 crop_w = py_int (of_int (fst (resolution self)) / current_zoom);
                 x_offset =
                   (if pan_direction = ''right'' then py_int (of_int (w - crop_w) * progress)
                    else if pan_direction = ''left''
                      then py_int (of_int (w - crop_w) * (1 - progress))
                    else (w - crop_w) div 2);
                 y_offset = (h - crop_h) div 2
             in Inr \<lparr>win_x = x_offset, win_y = y_offset, win_w = crop_w, win_h = crop_h,
                      out_size = resolution self\<rparr>)"

text \<open>
  The clip that \<open>create_ken_burns_clip\<close> returns: the resized picture and the
  parameters its frame function has captured.
\<close>

record kb_clip =
  kb_shape :: shape
  kb_duration :: real
  kb_zoom_start :: real
  kb_zoom_end :: real
  kb_pan_direction :: string

definition create_ken_burns_clip ::
  "MangaVideoGenerator \<Rightarrow> (string \<rightharpoonup> shape) \<Rightarrow> string \<Rightarrow> real \<Rightarrow> real \<Rightarrow> real \<Rightarrow> string
     \<Rightarrow> error + kb_clip" where
  "create_ken_burns_clip self files image_path duration zoom_start zoom_end pan_direction =
     (case files image_path of
        None \<Rightarrow> Inl IOError
      | Some shp \<Rightarrow>
          Inr \<lparr>kb_shape = resize_height shp (py_int (of_int (snd (resolution self)) * zoom_end)),
               kb_duration = duration, kb_zoom_start = zoom_start, kb_zoom_end = zoom_end,
               kb_pan_direction = pan_direction\<rparr>)"

text \<open>\<open>clip.get_frame(t)\<close> of the returned clip runs the closure.\<close>

definition get_frame :: "MangaVideoGenerator \<Rightarrow> kb_clip \<Rightarrow> real \<Rightarrow> error + frame" where
  "get_frame self clip t =
     zoom_and_pan self (kb_duration clip) (kb_zoom_start clip) (kb_zoom_end clip)
       (kb_pan_direction clip) (kb_shape clip) t"

text \<open>The window lies inside a picture of shape \<open>(h, w)\<close>.\<close>

definition window_within :: "shape \<Rightarrow> frame \<Rightarrow> bool" where
  "window_within shp f =
     (0 \<le> win_x f \<and> win_x f + win_w f \<le> snd shp \<and> 0 \<le> win_y f \<and> win_y f + win_h f \<le> fst shp)"

section \<open>The recap video (\<open>MangaVideoGenerator.create_manga_recap\<close>)\<close>

text \<open>
  A scene is a dict with the key \<open>'image'\<close> (read with \<open>scene['image']\<close>, a KeyError
  when absent) and the optional key \<open>'duration'\<close> (read with
  \<open>scene.get('duration', 5)\<close>).
\<close>

record scene =
  scene_image :: "string option"
  scene_duration :: "real option"

definition scene_get_duration :: "scene \<Rightarrow> real" where
  "scene_get_duration s = (case scene_duration s of None \<Rightarrow> 5 | Some d \<Rightarrow> d)"

datatype clip = TitleCard string real | SceneClip kb_clip

fun clip_duration :: "clip \<Rightarrow> real" where
  "clip_duration (TitleCard title d) = d"
| "clip_duration (SceneClip c) = kb_duration c"

definition pan_directions :: "string list" where
  "pan_directions = [''right'', ''left'', ''up'', ''down'']"

text \<open>The loop \<open>for i, scene in enumerate(scenes)\<close>, from index \<open>i\<close> on.\<close>

fun scene_clips ::
  "MangaVideoGenerator \<Rightarrow> (string \<rightharpoonup> shape) \<Rightarrow> nat \<Rightarrow> scene list \<Rightarrow> error + clip list" where
  "scene_clips self files i [] = Inr []"
| "scene_clips self files i (s # rest) =
     (case scene_image s of
        None \<Rightarrow> Inl KeyError
      | Some img \<Rightarrow>
          (case create_ken_burns_clip self files img (scene_get_duration s) 1 (6 / 5)
                  (pan_directions ! (i mod length pan_directions)) of
             Inl e \<Rightarrow> Inl e
           | Inr c \<Rightarrow>
               (case scene_clips self files (Suc i) rest of
                  Inl e \<Rightarrow> Inl e
                | Inr cs \<Rightarrow> Inr (SceneClip c # cs))))"

text \<open>The list \<open>clips\<close>: the title card of 3 seconds, then the scene clips.\<close>

definition recap_clips ::
  "MangaVideoGenerator \<Rightarrow> (string \<rightharpoonup> shape) \<Rightarrow> scene list \<Rightarrow> string \<Rightarrow> error + clip list" where
  "recap_clips self files scenes title =
     (case scene_clips self files 0 scenes of
        Inl e \<Rightarrow> Inl e
      | Inr cs \<Rightarrow> Inr (TitleCard title 3 # cs))"

text \<open>
  \<open>concatenate_videoclips(clips, method='compose')\<close> plays the clips one after the
  other; its duration is the sum of theirs. \<open>set_duration\<close> sets the duration of the
  video it is called on and leaves the clips inside as they are. The audio track is
  known by its duration.
\<close>

record video =
  video_clips :: "clip list"
  video_duration :: real
  video_audio :: "real option"

definition concatenate_videoclips :: "clip list \<Rightarrow> video" where
  "concatenate_videoclips clips =
     \<lparr>video_clips = clips, video_duration = sum_list (map clip_duration clips),
      video_audio = None\<rparr>"

text \<open>
  The narration step; \<open>audio\<close> is \<open>None\<close> when \<open>os.path.exists(audio_path)\<close> is
  false.
\<close>

definition add_narration :: "video \<Rightarrow> real option \<Rightarrow> video" where
  "add_narration v audio =
     (case audio of
        None \<Rightarrow> v
      | Some audio_duration \<Rightarrow>
          (if audio_duration > video_duration v
           then v\<lparr>video_duration := audio_duration\<rparr>
           else v)\<lparr>video_audio := Some audio_duration\<rparr>)"

definition create_manga_recap ::
  "MangaVideoGenerator \<Rightarrow> (string \<rightharpoonup> shape) \<Rightarrow> scene list \<Rightarrow> real option \<Rightarrow> string
     \<Rightarrow> error + video" where
  "create_manga_recap self files scenes audio title =
     (case recap_clips self files scenes title of
        Inl e \<Rightarrow> Inl e
      | Inr clips \<Rightarrow> Inr (add_narration (concatenate_videoclips clips) audio))"

section \<open>The pipeline (\<open>create_manga_recap_video\<close>)\<close>

text \<open>
  Step 4 of the pipeline gives every page image, of the first 20, one scene of 5 seconds:
  \<open>[{'image': img, 'duration': 5} for img in images[:20]]\<close>.
\<close>

definition pipeline_scenes :: "string list \<Rightarrow> scene list" where
  "pipeline_scenes images =
     map (\<lambda>img. \<lparr>scene_image = Some img, scene_duration = Some 5\<rparr>) (take 20 images)"

section \<open>Inputs used in the examples\<close>

definition page0 :: "nat list list" where
  "page0 = [[0, 1], [2, 3]]"

definition contours0 :: "contour list" where
  "contours0 =
     [\<lparr>contourArea = 20000, boundingRect = (10, 120, 200, 150)\<rparr>,
      \<lparr>contourArea = 50, boundingRect = (5, 5, 10, 10)\<rparr>,
      \<lparr>contourArea = 30000, boundingRect = (300, 20, 200, 150)\<rparr>,
      \<lparr>contourArea = 25000, boundingRect = (40, 60, 200, 150)\<rparr>,
      \<lparr>contourArea = 12000, boundingRect = (300, 90, 100, 120)\<rparr>]"

definition generator0 :: MangaVideoGenerator where
  "generator0 = \<lparr>resolution = (1920, 1080), fps = 30\<rparr>"

text \<open>A portrait page of 1000 x 1500 pixels and a landscape spread of 3000 x 2000.\<close>

definition files0 :: "string \<rightharpoonup> shape" where
  "files0 = [''page_0000.png'' \<mapsto> (1500, 1000), ''page_0001.png'' \<mapsto> (2000, 3000)]"

text \<open>Two scenes of 14 seconds each, 28 seconds together.\<close>

definition scenes0 :: "scene list" where
  "scenes0 = [\<lparr>scene_image = Some ''page_0000.png'', scene_duration = Some 14\<rparr>,
              \<lparr>scene_image = Some ''page_0001.png'', scene_duration = Some 14\<rparr>]"

section \<open>Panel detection: properties\<close>

subsection \<open>Facts about the loop and the sort\<close>

lemma collect_panels_boxes:
  "map box_of (collect_panels img min_area cs) =
   map boundingRect (filter (\<lambda>c. \<not> contourArea c < of_int min_area) cs)"
  by (induction cs) (auto simp: box_of_def split: prod.splits)

lemma collect_panels_length:
  "length (collect_panels img min_area cs) =
   length (filter (\<lambda>c. \<not> contourArea c < of_int min_area) cs)"
  using arg_cong [OF collect_panels_boxes, of length img min_area cs] by simp

lemma sorted_adjacent:
  "sorted xs \<Longrightarrow> Suc i < length xs \<Longrightarrow> xs ! i \<le> xs ! Suc i"
  by (simp add: sorted_iff_nth_mono)

lemma sort_key_panel_band: "sort_key_panel p = (band p, - panel_x p)"
  by (simp add: sort_key_panel_def band_def)

text \<open>
  C2. The list that \<open>detect_panels\<close> returns is in reading order: the bands
  (\<open>y // 100\<close>) never decrease from one panel to the next, two neighbours in the same
  band have non-increasing x, and the panels that agree on band and x keep the order in
  which the contours were detected.
\<close>

theorem detect_panels_reading_order:
  "let ps = detect_panels img contours min_area in
     (\<forall>i. Suc i < length ps \<longrightarrow>
        band (ps ! i) \<le> band (ps ! Suc i) \<and>
        (band (ps ! i) = band (ps ! Suc i) \<longrightarrow> panel_x (ps ! Suc i) \<le> panel_x (ps ! i))) \<and>
     (\<forall>b xx. filter (\<lambda>p. band p = b \<and> panel_x p = xx) ps =
             filter (\<lambda>p. band p = b \<and> panel_x p = xx) (collect_panels img min_area contours))"
proof -
  define cand where "cand = collect_panels img min_area contours"
  define ps where "ps = detect_panels img contours min_area"
  have ps: "ps = sort_key sort_key_panel cand"
    by (simp add: ps_def cand_def detect_panels_def)
  have srt: "sorted (map sort_key_panel ps)"
    by (simp add: ps)
  have order: "band (ps ! i) \<le> band (ps ! Suc i) \<and>
        (band (ps ! i) = band (ps ! Suc i) \<longrightarrow> panel_x (ps ! Suc i) \<le> panel_x (ps ! i))"
    if "Suc i < length ps" for i
  proof -
    from that have "map sort_key_panel ps ! i \<le> map sort_key_panel ps ! Suc i"
      using srt by (intro sorted_adjacent) simp_all
    with that have "sort_key_panel (ps ! i) \<le> sort_key_panel (ps ! Suc i)"
      by simp
    then show ?thesis
      by (auto simp: sort_key_panel_band less_eq_prod_def)
  qed
  have stable: "filter (\<lambda>p. band p = b \<and> panel_x p = xx) ps =
             filter (\<lambda>p. band p = b \<and> panel_x p = xx) cand" for b xx
  proof -
    have eq: "(\<lambda>p::'a Panel. band p = b \<and> panel_x p = xx) = (\<lambda>p. sort_key_panel p = (b, - xx))"
      by (auto simp: sort_key_panel_band fun_eq_iff)
    show ?thesis
      unfolding eq ps by (rule sort_key_stable)
  qed
  from order stable show ?thesis
    unfolding Let_def ps_def [symmetric] cand_def [symmetric] by blast
qed

theorem detect_panels_reading_order_witness:
  "map box_of (detect_panels page0 contours0 10000) =
     [(300, 20, 200, 150), (300, 90, 100, 120), (40, 60, 200, 150), (10, 120, 200, 150)] \<and>
   Suc 1 < length (detect_panels page0 contours0 10000) \<and>
   band (detect_panels page0 contours0 10000 ! 1) = band (detect_panels page0 contours0 10000 ! Suc 1) \<and>
   panel_x (detect_panels page0 contours0 10000 ! Suc 1) \<le> panel_x (detect_panels page0 contours0 10000 ! 1) \<and>
   filter (\<lambda>p. band p = 0 \<and> panel_x p = 300) (detect_panels page0 contours0 10000) =
   filter (\<lambda>p. band p = 0 \<and> panel_x p = 300) (collect_panels page0 10000 contours0)"
proof -
  have boxes: "map box_of (detect_panels page0 contours0 10000) =
     [(300, 20, 200, 150), (300, 90, 100, 120), (40, 60, 200, 150), (10, 120, 200, 150)]"
    by (simp add: detect_panels_def contours0_def sort_key_panel_def box_of_def less_eq_prod_def)
  have len: "Suc 1 < length (detect_panels page0 contours0 10000)"
    using arg_cong [OF boxes, of length] by simp
  have same: "band (detect_panels page0 contours0 10000 ! 1) =
      band (detect_panels page0 contours0 10000 ! Suc 1)"
    by (simp add: detect_panels_def contours0_def sort_key_panel_def band_def less_eq_prod_def)
  from detect_panels_reading_order [of page0 contours0 10000] len same boxes
  show ?thesis
    unfolding Let_def by blast
qed

text \<open>
  C3, as the code has it. The claim promises one synthetic full-page panel when no
  region survives the area filter. \<open>detect_panels\<close> has no such fallback: a page whose
  only contour is a stray mark of area 50 gives the empty list.
\<close>

theorem detect_panels_no_synthetic_panel_counterexample:
  "detect_panels page0 [\<lparr>contourArea = 50, boundingRect = (5, 5, 10, 10)\<rparr>] 10000 = []"
  by (simp add: detect_panels_def)

text \<open>
  C3, amended. \<open>detect_panels\<close> returns the empty list exactly when no contour reaches
  the minimum area.
\<close>

theorem detect_panels_empty_iff:
  "detect_panels img contours min_area = [] \<longleftrightarrow>
   (\<forall>c \<in> set contours. contourArea c < of_int min_area)"
proof -
  have "detect_panels img contours min_area = [] \<longleftrightarrow>
        length (collect_panels img min_area contours) = 0"
    unfolding detect_panels_def by (metis length_0_conv length_sort)
  also have "\<dots> \<longleftrightarrow> filter (\<lambda>c. \<not> contourArea c < of_int min_area) contours = []"
    by (simp add: collect_panels_length)
  also have "\<dots> \<longleftrightarrow> (\<forall>c \<in> set contours. contourArea c < of_int min_area)"
    by (simp add: filter_empty_conv)
  finally show ?thesis .
qed

theorem detect_panels_empty_iff_witness:
  "contourArea \<lparr>contourArea = 50, boundingRect = (5, 5, 10, 10)\<rparr> < 10000 \<and>
   contourArea \<lparr>contourArea = 9999, boundingRect = (200, 300, 120, 90)\<rparr> < 10000 \<and>
   detect_panels page0 [\<lparr>contourArea = 50, boundingRect = (5, 5, 10, 10)\<rparr>,
                       \<lparr>contourArea = 9999, boundingRect = (200, 300, 120, 90)\<rparr>] 10000 = []"
  using detect_panels_empty_iff
    [of page0 "[\<lparr>contourArea = 50, boundingRect = (5, 5, 10, 10)\<rparr>,
               \<lparr>contourArea = 9999, boundingRect = (200, 300, 120, 90)\<rparr>]" 10000]
  by simp

text \<open>
  C4, as the code has it. The claim says a box that lies inside another surviving box is
  discarded. \<open>detect_panels\<close> compares no two boxes: of two contours above the minimum
  area, the second with its box inside the box of the first, both come out as panels.
\<close>

theorem detect_panels_keeps_contained_box_counterexample:
  "map box_of (detect_panels page0
       [\<lparr>contourArea = 100000, boundingRect = (0, 0, 800, 600)\<rparr>,
        \<lparr>contourArea = 20000, boundingRect = (100, 100, 200, 150)\<rparr>] 10000) =
     [(0, 0, 800, 600), (100, 100, 200, 150)] \<and>
   contained_in (100, 100, 200, 150) (0, 0, 800, 600)"
  by (simp add: detect_panels_def sort_key_panel_def box_of_def less_eq_prod_def
      contained_in_def)

text \<open>
  C4, amended. Every contour whose area is at least \<open>min_area\<close> gives exactly one panel
  with its bounding box, and nothing else does: the boxes of the output are, as a
  multiset, the boxes of the contours that pass the area test.
\<close>

theorem detect_panels_boxes:
  "mset (map box_of (detect_panels img contours min_area)) =
   mset (map boundingRect (filter (\<lambda>c. \<not> contourArea c < of_int min_area) contours))"
proof -
  have "mset (map box_of (detect_panels img contours min_area)) =
        image_mset box_of (mset (detect_panels img contours min_area))"
    by simp
  also have "\<dots> = image_mset box_of (mset (collect_panels img min_area contours))"
    by (simp add: detect_panels_def)
  also have "\<dots> = mset (map box_of (collect_panels img min_area contours))"
    by simp
  finally show ?thesis
    by (simp only: collect_panels_boxes)
qed

section \<open>Narration script: properties\<close>

lemma str_join_empty_iff:
  "(\<forall>p \<in> set parts. p \<noteq> '''') \<Longrightarrow> str_join sep parts = '''' \<longleftrightarrow> parts = []"
  by (induction sep parts rule: str_join.induct) auto

lemma script_parts_nonempty: "p \<in> set (script_parts ps) \<Longrightarrow> p \<noteq> ''''"
  by (induction ps) (auto simp: Let_def split: if_splits)

text \<open>
  C9, as the code has it. The claim promises one unit per panel, a placeholder marker
  standing in for an empty text. \<open>create_recap_script\<close> writes the marker only under
  \<open>elif desc\<close>: a panel whose text and description are both empty (or absent) adds
  nothing, so two such panels give no unit and the empty script.
\<close>

theorem create_recap_script_empty_counterexample:
  "script_parts [[''text'' \<mapsto> '''', ''description'' \<mapsto> ''''], Map.empty] = [] \<and>
   create_recap_script [[''text'' \<mapsto> '''', ''description'' \<mapsto> ''''], Map.empty] = ''''"
  by (simp add: create_recap_script_def dict_get_def)

text \<open>
  C9, amended. The units are, in panel order, one for every panel that has a text or a
  description: the text when there is one, otherwise the marker \<open>[Scene: desc]\<close>. A
  panel with neither gives no unit. The script is non-empty exactly when some panel has
  a text or a description.
\<close>

theorem create_recap_script_units:
  "script_parts ps =
     map (\<lambda>p. if dict_get p ''text'' '''' \<noteq> '''' then dict_get p ''text'' ''''
              else ''[Scene: '' @ dict_get p ''description'' '''' @ '']'')
         (filter (\<lambda>p. dict_get p ''text'' '''' \<noteq> '''' \<or> dict_get p ''description'' '''' \<noteq> '''') ps) \<and>
   (create_recap_script ps \<noteq> '''' \<longleftrightarrow>
      (\<exists>p \<in> set ps. dict_get p ''text'' '''' \<noteq> '''' \<or> dict_get p ''description'' '''' \<noteq> ''''))"
proof
  show units: "script_parts ps =
     map (\<lambda>p. if dict_get p ''text'' '''' \<noteq> '''' then dict_get p ''text'' ''''
              else ''[Scene: '' @ dict_get p ''description'' '''' @ '']'')
         (filter (\<lambda>p. dict_get p ''text'' '''' \<noteq> '''' \<or> dict_get p ''description'' '''' \<noteq> '''') ps)"
    by (induction ps) (simp_all add: Let_def)
  have "create_recap_script ps = '''' \<longleftrightarrow> script_parts ps = []"
    unfolding create_recap_script_def
    by (rule str_join_empty_iff) (simp add: script_parts_nonempty)
  also have "\<dots> \<longleftrightarrow>
      \<not> (\<exists>p \<in> set ps. dict_get p ''text'' '''' \<noteq> '''' \<or> dict_get p ''description'' '''' \<noteq> '''')"
    by (subst units) (simp add: filter_empty_conv)
  finally show "create_recap_script ps \<noteq> '''' \<longleftrightarrow>
      (\<exists>p \<in> set ps. dict_get p ''text'' '''' \<noteq> '''' \<or> dict_get p ''description'' '''' \<noteq> '''')"
    by blast
qed

theorem create_recap_script_units_witness:
  "script_parts [[''text'' \<mapsto> ''Hello''], [''description'' \<mapsto> ''a door''], Map.empty] =
     [''Hello'', ''[Scene: a door]''] \<and>
   create_recap_script [[''text'' \<mapsto> ''Hello''], [''description'' \<mapsto> ''a door''], Map.empty] \<noteq> ''''"
  using create_recap_script_units
    [of "[[''text'' \<mapsto> ''Hello''], [''description'' \<mapsto> ''a door''], Map.empty]"]
  by (simp add: dict_get_def)

section \<open>Ken Burns clips: properties\<close>

lemma py_int_of_int: "py_int (of_int n) = n"
  by (simp add: py_int_def)

lemma py_int_nonneg: "0 \<le> r \<Longrightarrow> py_int r = \<lfloor>r\<rfloor>"
  by (simp add: py_int_def)

lemma zoom_and_pan_cases:
  assumes "zoom_and_pan self duration zoom_start zoom_end pan_direction shp t = Inr f"
  defines "z \<equiv> zoom_start + (zoom_end - zoom_start) * (t / duration)"
  shows "duration \<noteq> 0" and "z \<noteq> 0"
    and "win_h f = py_int (of_int (snd (resolution self)) / z)"
    and "win_w f = py_int (of_int (fst (resolution self)) / z)"
    and "win_y f = (fst shp - win_h f) div 2"
    and "win_x f =
          (if pan_direction = ''right'' then py_int (of_int (snd shp - win_w f) * (t / duration))
           else if pan_direction = ''left''
             then py_int (of_int (snd shp - win_w f) * (1 - t / duration))
           else (snd shp - win_w f) div 2)"
    and "out_size f = resolution self"
  using assms(1) unfolding z_def zoom_and_pan_def Let_def
  by (auto split: if_splits)

text \<open>
  C6, at a failing input. A portrait page of 1000 x 1500 pixels, the default zoom from
  1.0 to 1.2 and the 1920 x 1080 resolution: the clip is resized to the height 1296,
  which makes it 864 wide, and at \<open>t = 0\<close> the window is 1920 wide. The window leaves
  the picture on the right.
\<close>

theorem create_ken_burns_clip_window_exceeds_width:
  "create_ken_burns_clip generator0 files0 ''page_0000.png'' 5 1 (6 / 5) ''right'' =
     Inr \<lparr>kb_shape = (1296, 864), kb_duration = 5, kb_zoom_start = 1, kb_zoom_end = 6 / 5,
          kb_pan_direction = ''right''\<rparr> \<and>
   get_frame generator0
     \<lparr>kb_shape = (1296, 864), kb_duration = 5, kb_zoom_start = 1, kb_zoom_end = 6 / 5,
      kb_pan_direction = ''right''\<rparr> 0 =
     Inr \<lparr>win_x = 0, win_y = 108, win_w = 1920, win_h = 1080, out_size = (1920, 1080)\<rparr> \<and>
   \<not> window_within (1296, 864)
       \<lparr>win_x = 0, win_y = 108, win_w = 1920, win_h = 1080, out_size = (1920, 1080)\<rparr>"
  by (simp add: create_ken_burns_clip_def get_frame_def zoom_and_pan_def generator0_def
      files0_def resize_height_def py_int_def window_within_def Let_def)

text \<open>
  The window against the picture, for a picture as high as the resize makes it.
\<close>

lemma zoom_and_pan_window_within_iff:
  assumes t: "0 < duration" "0 \<le> t" "t \<le> duration"
    and z: "1 \<le> zoom_start" "1 \<le> zoom_end"
    and res: "0 \<le> snd (resolution self)"
    and h: "fst shp = py_int (of_int (snd (resolution self)) * zoom_end)"
    and f: "zoom_and_pan self duration zoom_start zoom_end pan_direction shp t = Inr f"
  shows "0 \<le> win_y f \<and> win_y f + win_h f \<le> fst shp"
    and "window_within shp f \<longleftrightarrow> win_w f \<le> snd shp"
proof -
  define p where "p = t / duration"
  define zc where "zc = zoom_start + (zoom_end - zoom_start) * p"
  define R where "R = snd (resolution self)"
  have p: "0 \<le> p" "p \<le> 1"
    using t by (simp_all add: p_def)
  have "zc = (1 - p) * zoom_start + p * zoom_end"
    by (simp add: zc_def algebra_simps)
  also have "\<dots> \<ge> (1 - p) * 1 + p * 1"
    using p z by (intro add_mono mult_left_mono) simp_all
  finally have zc: "1 \<le> zc"
    by simp
  note c = zoom_and_pan_cases [OF f, folded p_def, folded zc_def, folded R_def]
  have R: "0 \<le> R"
    using res by (simp add: R_def)
  have "real_of_int R * 1 \<le> real_of_int R * zc"
    using R zc by (intro mult_left_mono) simp_all
  then have "real_of_int R / zc \<le> real_of_int R"
    using zc by (simp add: divide_le_eq)
  moreover have "0 \<le> real_of_int R / zc"
    using R zc by simp
  ultimately have hh: "win_h f \<le> R"
    using c(3) by (simp add: py_int_nonneg floor_le_iff)
  have "real_of_int R * 1 \<le> real_of_int R * zoom_end"
    using R z by (intro mult_left_mono) simp_all
  then have "R \<le> fst shp"
    using h R by (simp add: R_def [symmetric] py_int_nonneg le_floor_iff)
  with hh have room: "win_h f \<le> fst shp"
    by simp
  with c(5) show vert: "0 \<le> win_y f \<and> win_y f + win_h f \<le> fst shp"
    by simp
  show "window_within shp f \<longleftrightarrow> win_w f \<le> snd shp"
  proof
    assume "window_within shp f"
    then show "win_w f \<le> snd shp"
      by (simp add: window_within_def)
  next
    assume w: "win_w f \<le> snd shp"
    define d where "d = snd shp - win_w f"
    have d: "0 \<le> d"
      using w by (simp add: d_def)
    have "0 \<le> real_of_int d * p" "real_of_int d * p \<le> real_of_int d"
      using d p by (simp_all add: mult_left_le)
    then have r: "0 \<le> py_int (real_of_int d * p) \<and> py_int (real_of_int d * p) \<le> d"
      by (simp add: py_int_nonneg floor_le_iff le_floor_iff)
    have "0 \<le> real_of_int d * (1 - p)" "real_of_int d * (1 - p) \<le> real_of_int d"
      using d p by (simp_all add: mult_left_le)
    then have l: "0 \<le> py_int (real_of_int d * (1 - p)) \<and> py_int (real_of_int d * (1 - p)) \<le> d"
      by (simp add: py_int_nonneg floor_le_iff le_floor_iff)
    have m: "0 \<le> d div 2 \<and> d div 2 \<le> d"
      using d by simp
    have "0 \<le> win_x f \<and> win_x f \<le> d"
      using c(6) r l m unfolding d_def [symmetric] by (simp split: if_splits)
    with vert show "window_within shp f"
      by (simp add: window_within_def d_def)
  qed
qed

text \<open>
  What the resize does guarantee. The clip is resized by its height alone, to
  \<open>int(resolution[1] * zoom_end)\<close>. With zoom factors of at least 1 and a time inside
  the clip, that leaves room for the window from top to bottom; from left to right the
  window fits exactly when the resized picture happens to be as wide as the window.
\<close>

lemma ken_burns_window_within_iff:
  assumes "0 < duration" "0 \<le> t" "t \<le> duration"
    and "1 \<le> zoom_start" "1 \<le> zoom_end"
    and "0 \<le> snd (resolution self)"
    and c: "create_ken_burns_clip self files image_path duration zoom_start zoom_end
              pan_direction = Inr c"
    and f: "get_frame self c t = Inr f"
  shows "0 \<le> win_y f \<and> win_y f + win_h f \<le> fst (kb_shape c)"
    and "window_within (kb_shape c) f \<longleftrightarrow> win_w f \<le> snd (kb_shape c)"
proof -
  from c obtain shp where c_eq:
    "c = \<lparr>kb_shape = resize_height shp (py_int (of_int (snd (resolution self)) * zoom_end)),
          kb_duration = duration, kb_zoom_start = zoom_start, kb_zoom_end = zoom_end,
          kb_pan_direction = pan_direction\<rparr>"
    by (auto simp: create_ken_burns_clip_def split: option.splits)
  have h: "fst (kb_shape c) = py_int (of_int (snd (resolution self)) * zoom_end)"
    by (simp add: c_eq resize_height_def split: prod.splits)
  have f': "zoom_and_pan self duration zoom_start zoom_end pan_direction (kb_shape c) t = Inr f"
    using f by (simp add: get_frame_def c_eq)
  show "0 \<le> win_y f \<and> win_y f + win_h f \<le> fst (kb_shape c)"
    using assms(1-6) h f' by (rule zoom_and_pan_window_within_iff(1))
  show "window_within (kb_shape c) f \<longleftrightarrow> win_w f \<le> snd (kb_shape c)"
    using assms(1-6) h f' by (rule zoom_and_pan_window_within_iff(2))
qed

text \<open>
  C7, at a failing input. The caller cycles through \<open>'right', 'left', 'up', 'down'\<close>
  and the docstring lists all four, but the closure has branches for \<open>'right'\<close> and
  \<open>'left'\<close> only. With \<open>'up'\<close> on a landscape picture, resized to 1944 x 1296, the
  window is centred on both axes at the start and at the end of the clip: its y-origin
  is 108 at \<open>t = 0\<close> and 198 at \<open>t = 5\<close>, neither 0 nor the slack \<open>h - crop_h\<close> (216 and
  396) that a vertical pan would reach.
\<close>

theorem zoom_and_pan_up_is_centred:
  "create_ken_burns_clip generator0 files0 ''page_0001.png'' 5 1 (6 / 5) ''up'' =
     Inr \<lparr>kb_shape = (1296, 1944), kb_duration = 5, kb_zoom_start = 1, kb_zoom_end = 6 / 5,
          kb_pan_direction = ''up''\<rparr> \<and>
   get_frame generator0
     \<lparr>kb_shape = (1296, 1944), kb_duration = 5, kb_zoom_start = 1, kb_zoom_end = 6 / 5,
      kb_pan_direction = ''up''\<rparr> 0 =
     Inr \<lparr>win_x = 12, win_y = 108, win_w = 1920, win_h = 1080, out_size = (1920, 1080)\<rparr> \<and>
   get_frame generator0
     \<lparr>kb_shape = (1296, 1944), kb_duration = 5, kb_zoom_start = 1, kb_zoom_end = 6 / 5,
      kb_pan_direction = ''up''\<rparr> 5 =
     Inr \<lparr>win_x = 172, win_y = 198, win_w = 1600, win_h = 900, out_size = (1920, 1080)\<rparr>"
  by (simp add: create_ken_burns_clip_def get_frame_def zoom_and_pan_def generator0_def
      files0_def resize_height_def py_int_def Let_def)

text \<open>
  The pan in general. \<open>'right'\<close> starts with the x-origin at 0 and ends with it at
  \<open>w - crop_w\<close>, \<open>'left'\<close> runs the other way, and both keep the window centred
  vertically. Every other direction, \<open>'up'\<close> and \<open>'down'\<close> included, centres the
  window on both axes at every time.
\<close>

lemma zoom_and_pan_offsets:
  assumes "zoom_and_pan self duration zoom_start zoom_end pan_direction shp t = Inr f"
  shows "win_y f = (fst shp - win_h f) div 2"
    and "pan_direction = ''right'' \<Longrightarrow> t = 0 \<Longrightarrow> win_x f = 0"
    and "pan_direction = ''right'' \<Longrightarrow> t = duration \<Longrightarrow> win_x f = snd shp - win_w f"
    and "pan_direction = ''left'' \<Longrightarrow> t = 0 \<Longrightarrow> win_x f = snd shp - win_w f"
    and "pan_direction = ''left'' \<Longrightarrow> t = duration \<Longrightarrow> win_x f = 0"
    and "pan_direction \<noteq> ''right'' \<Longrightarrow> pan_direction \<noteq> ''left'' \<Longrightarrow>
           win_x f = (snd shp - win_w f) div 2"
  using zoom_and_pan_cases(1,5,6) [OF assms]
  by (simp_all add: py_int_of_int del: of_int_diff) (simp_all add: py_int_def)

section \<open>The recap video: properties\<close>

lemma scene_clips_durations:
  "scene_clips self files i scenes = Inr cs \<Longrightarrow>
   map clip_duration cs = map scene_get_duration scenes"
proof (induction scenes arbitrary: i cs)
  case Nil
  then show ?case by simp
next
  case (Cons s rest)
  from Cons.prems obtain img c cs' where
    c: "create_ken_burns_clip self files img (scene_get_duration s) 1 (6 / 5)
          (pan_directions ! (i mod length pan_directions)) = Inr c"
    and rest: "scene_clips self files (Suc i) rest = Inr cs'"
    and cs: "cs = SceneClip c # cs'"
    by (auto split: option.splits sum.splits)
  from c have "kb_duration c = scene_get_duration s"
    by (auto simp: create_ken_burns_clip_def split: option.splits)
  with Cons.IH [OF rest] cs show ?case
    by simp
qed

lemma scene_clips_total:
  "(\<forall>s \<in> set scenes. \<exists>img. scene_image s = Some img \<and> img \<in> dom files) \<Longrightarrow>
   \<exists>cs. scene_clips self files i scenes = Inr cs"
proof (induction scenes arbitrary: i)
  case Nil
  then show ?case by simp
next
  case (Cons s rest)
  from Cons.prems obtain img shp where img: "scene_image s = Some img" "files img = Some shp"
    by auto
  from Cons.prems have "\<forall>s \<in> set rest. \<exists>img. scene_image s = Some img \<and> img \<in> dom files"
    by simp
  from Cons.IH [OF this] obtain cs where "scene_clips self files (Suc i) rest = Inr cs"
    by blast
  with img show ?case
    by (simp add: create_ken_burns_clip_def)
qed



text \<open>
  C8, as the code has it. The claim's own scenario: two scenes of 14 seconds and a
  narration of 30 seconds. The video already lasts 3 + 28 = 31 seconds with its title
  card, the test \<open>audio.duration > video.duration\<close> fails, and nothing is extended: the
  final scene keeps its 14 seconds, where the claim makes them 16.
\<close>

theorem create_manga_recap_no_extension_counterexample:
  "sum_list (map scene_get_duration scenes0) = 28 \<and>
   sum_list (map scene_get_duration scenes0) < 30 \<and>
   map_sum id (\<lambda>v. (map clip_duration (video_clips v), video_duration v))
     (create_manga_recap generator0 files0 scenes0 (Some 30) ''Manga Recap'') =
   Inr ([3, 14, 14], 31)"
  by (simp add: create_manga_recap_def recap_clips_def scenes0_def files0_def generator0_def
      create_ken_burns_clip_def resize_height_def py_int_def scene_get_duration_def
      pan_directions_def concatenate_videoclips_def add_narration_def)

text \<open>
  C8, amended. With a narration of duration \<open>a\<close>, the video keeps every clip as it was
  built: the title card and each scene clip, the final one too, keep their durations.
  Only the duration of the whole video changes: it is \<open>a\<close> when \<open>a\<close> is longer than the
  title card plus the scenes, and the title card plus the scenes otherwise.
\<close>

theorem create_manga_recap_durations:
  assumes "\<forall>s \<in> set scenes. \<exists>img. scene_image s = Some img \<and> img \<in> dom files"
  shows "\<exists>v. create_manga_recap self files scenes (Some a) title = Inr v \<and>
           recap_clips self files scenes title = Inr (video_clips v) \<and>
           map clip_duration (video_clips v) = 3 # map scene_get_duration scenes \<and>
           video_duration v = max a (3 + sum_list (map scene_get_duration scenes))"
proof -
  from scene_clips_total [OF assms] obtain cs where cs: "scene_clips self files 0 scenes = Inr cs"
    by blast
  have dur: "map clip_duration cs = map scene_get_duration scenes"
    using cs by (rule scene_clips_durations)
  have clips: "recap_clips self files scenes title = Inr (TitleCard title 3 # cs)"
    by (simp add: recap_clips_def cs)
  define v where "v = add_narration (concatenate_videoclips (TitleCard title 3 # cs)) (Some a)"
  have "create_manga_recap self files scenes (Some a) title = Inr v"
    by (simp add: create_manga_recap_def clips v_def)
  moreover have "video_clips v = TitleCard title 3 # cs"
    by (simp add: v_def add_narration_def concatenate_videoclips_def)
  moreover have "video_duration v = max a (3 + sum_list (map scene_get_duration scenes))"
    by (simp add: v_def add_narration_def concatenate_videoclips_def dur max_def)
  ultimately show ?thesis
    using clips dur by simp
qed

theorem create_manga_recap_durations_witness:
  "map_sum id (\<lambda>v. (map clip_duration (video_clips v), video_duration v))
     (create_manga_recap generator0 files0 scenes0 (Some 40) ''Manga Recap'') =
   Inr ([3, 14, 14], 40)"
proof -
  have loads: "\<forall>s \<in> set scenes0. \<exists>img. scene_image s = Some img \<and> img \<in> dom files0"
    by (simp add: scenes0_def files0_def)
  from create_manga_recap_durations [OF loads, of generator0 40 "''Manga Recap''"]
  show ?thesis
    by (auto simp: scenes0_def scene_get_duration_def)
qed

section \<open>The pipeline: properties\<close>

text \<open>
  C1, as the code has it. The claim has the durations sum to the audio duration \<open>D\<close>.
  The pipeline never looks at the audio to set a duration: for two pages and a
  narration of 30 seconds (\<open>2 * 1.5 is below 30\<close>) the durations sum to 10, not to 30 within
  any small \<open>\<epsilon>\<close>.
\<close>

theorem pipeline_durations_sum_counterexample:
  "2 * (3 / 2) \<le> (30 :: real) \<and>
   map scene_get_duration (pipeline_scenes [''page_0000.png'', ''page_0001.png'']) = [5, 5] \<and>
   \<not> \<bar>sum_list (map scene_get_duration (pipeline_scenes [''page_0000.png'', ''page_0001.png''])) - 30\<bar>
       < 1 / 20"
  by (simp add: pipeline_scenes_def scene_get_duration_def)

text \<open>
  C1, amended. The pipeline gives each of its scenes, one per page up to 20, the fixed
  duration of 5 seconds, whatever the audio lasts: the durations sum to 5 times their
  number, and each is above the floor of 1.5 seconds.
\<close>

theorem pipeline_durations_fixed:
  "let ds = map scene_get_duration (pipeline_scenes images) in
     length ds = min 20 (length images) \<and>
     sum_list ds = 5 * real (length ds) \<and>
     (\<forall>d \<in> set ds. d = 5 \<and> 3 / 2 \<le> d)"
proof -
  have ds: "map scene_get_duration (pipeline_scenes images) = replicate (min 20 (length images)) 5"
    by (simp add: pipeline_scenes_def scene_get_duration_def map_replicate_const o_def min.commute)
  show ?thesis
    unfolding Let_def ds by (simp add: sum_list_replicate)
qed

theorem pipeline_durations_fixed_witness:
  "map scene_get_duration (pipeline_scenes [''page_0000.png'', ''page_0001.png'', ''page_0002.png'']) =
     [5, 5, 5] \<and>
   sum_list (map scene_get_duration
     (pipeline_scenes [''page_0000.png'', ''page_0001.png'', ''page_0002.png''])) = 15"
  using pipeline_durations_fixed [of "[''page_0000.png'', ''page_0001.png'', ''page_0002.png'']"]
  by (simp add: pipeline_scenes_def scene_get_duration_def)

end
